theory Spec2Isabelle
  imports Complex_Main
begin

section \<open>The outline: the pydantic models of app.py\<close>

text \<open>
  \<^verbatim>\<open>CoverSlide\<close>, \<^verbatim>\<open>QASlide\<close> and \<^verbatim>\<open>Carousel\<close> are the three pydantic models of
  app.py. Python's \<^verbatim>\<open>int\<close> is unbounded, hence \<open>int\<close>; \<^verbatim>\<open>str\<close> is \<open>string\<close>, read as
  the UTF-8 bytes of the text. The field \<^verbatim>\<open>type\<close> of either slide model is a
  \<^verbatim>\<open>Literal\<close> with one inhabitant, so its type here has one constructor. Both slide models
  have fields called \<^verbatim>\<open>slide_number\<close> and \<^verbatim>\<open>type\<close>; the fields of \<^verbatim>\<open>QASlide\<close> carry
  the prefix \<open>qa_\<close> to keep the two apart.
\<close>

datatype cover_literal = Lit_cover

datatype qa_literal = Lit_qa

record CoverSlide =
  slide_number :: int
  type :: cover_literal
  title :: string
  subtitle :: string

record QASlide =
  qa_slide_number :: int
  qa_type :: qa_literal
  question :: string
  answer :: string

record Carousel =
  cover :: CoverSlide
  qa_slides :: "QASlide list"

section \<open>The slide document: the part of python-pptx that app.py drives\<close>

text \<open>
  Lengths are English Metric Units, as python-pptx stores them: \<^verbatim>\<open>Inches(x)\<close> is
  \<^verbatim>\<open>int(x * 914400)\<close> and \<^verbatim>\<open>Pt(n)\<close> is \<^verbatim>\<open>int(n * 12700)\<close>. Python's \<^verbatim>\<open>int()\<close> truncates
  towards zero. The only non-integral argument in app.py is 11.25, which is exact in binary
  floating point, so a rational argument loses nothing.
\<close>

definition Inches :: "rat \<Rightarrow> int" where
  "Inches x = (if 0 \<le> x then \<lfloor>x * 914400\<rfloor> else \<lceil>x * 914400\<rceil>)"

definition Pt :: "int \<Rightarrow> int" where
  "Pt n = n * 12700"

datatype RGBColor = RGBColor nat nat nat

datatype MSO_VERTICAL_ANCHOR = TOP | MIDDLE | BOTTOM

datatype PP_ALIGN = LEFT | CENTER | RIGHT | JUSTIFY | DISTRIBUTE

datatype error = IndexError | KeyError | AttributeError | TypeError
  | SchemaViolation | TransportFailure

text \<open>
  A fill is inherited until \<^verbatim>\<open>solid()\<close> is called on it; a solid fill has a foreground
  colour once one is assigned. Reading \<^verbatim>\<open>fore_color\<close> of a fill that is not solid raises
  \<^verbatim>\<open>TypeError\<close>.
\<close>

datatype fill = InheritedFill | SolidFill "RGBColor option"

record font =
  f_name :: "string option"
  f_size :: "int option"
  f_bold :: "bool option"
  f_color_rgb :: "RGBColor option"

text \<open>
  The content of a paragraph is a sequence of runs of text and line breaks (the elements
  \<^verbatim>\<open>a:r\<close> and \<^verbatim>\<open>a:br\<close> of the format).
\<close>

datatype content = Run string | LineBreak

record Paragraph =
  p_font :: font
  alignment :: "PP_ALIGN option"
  p_content :: "content list"

record text_frame =
  paragraphs :: "Paragraph list"
  vertical_anchor :: "MSO_VERTICAL_ANCHOR option"
  margin_left :: int
  margin_right :: int
  margin_top :: int
  margin_bottom :: int

text \<open>
  A slide is its background fill and its placeholder shapes, each a text region (text
  frame) found by its placeholder index \<open>idx\<close>, in document order.
\<close>

record slide =
  background :: fill
  placeholders :: "(nat \<times> text_frame) list"

record slide_layout =
  layout_name :: string
  layout_placeholders :: "nat list"

record presentation =
  slide_width :: int
  slide_height :: int
  slide_layouts :: "slide_layout list"
  slides :: "slide list"

definition bind :: "error + 'a \<Rightarrow> ('a \<Rightarrow> error + 'b) \<Rightarrow> error + 'b" where
  "bind m f = (case m of Inl e \<Rightarrow> Inl e | Inr x \<Rightarrow> f x)"

subsection \<open>The default template\<close>

text \<open>
  \<^verbatim>\<open>Presentation()\<close> opens the default template of python-pptx: a 4:3 canvas, no slides,
  and eleven layouts. For each layout the list gives the \<open>idx\<close> of the placeholders that
  \<^verbatim>\<open>add_slide\<close> clones onto a new slide (the date, footer and slide-number placeholders of
  a layout are not cloned).
\<close>

definition Presentation :: presentation where
  "Presentation =
     \<lparr>slide_width = 9144000, slide_height = 6858000,
      slide_layouts =
        [\<lparr>layout_name = ''Title Slide'', layout_placeholders = [0, 1]\<rparr>,
         \<lparr>layout_name = ''Title and Content'', layout_placeholders = [0, 1]\<rparr>,
         \<lparr>layout_name = ''Section Header'', layout_placeholders = [0, 1]\<rparr>,
         \<lparr>layout_name = ''Two Content'', layout_placeholders = [0, 1, 2]\<rparr>,
         \<lparr>layout_name = ''Comparison'', layout_placeholders = [0, 1, 2, 3, 4]\<rparr>,
         \<lparr>layout_name = ''Title Only'', layout_placeholders = [0]\<rparr>,
         \<lparr>layout_name = ''Blank'', layout_placeholders = []\<rparr>,
         \<lparr>layout_name = ''Content with Caption'', layout_placeholders = [0, 1, 2]\<rparr>,
         \<lparr>layout_name = ''Picture with Caption'', layout_placeholders = [0, 1, 2]\<rparr>,
         \<lparr>layout_name = ''Title and Vertical Text'', layout_placeholders = [0, 1]\<rparr>,
         \<lparr>layout_name = ''Vertical Title and Text'', layout_placeholders = [0, 1]\<rparr>],
      slides = []\<rparr>"

subsection \<open>The library calls\<close>

text \<open>\<^verbatim>\<open>prs.slide_layouts[i]\<close>: an index out of range raises \<^verbatim>\<open>IndexError\<close>.\<close>

definition get_layout :: "presentation \<Rightarrow> nat \<Rightarrow> error + slide_layout" where
  "get_layout prs i =
     (if i < length (slide_layouts prs) then Inr (slide_layouts prs ! i) else Inl IndexError)"

definition empty_font :: font where
  "empty_font = \<lparr>f_name = None, f_size = None, f_bold = None, f_color_rgb = None\<rparr>"

definition empty_paragraph :: Paragraph where
  "empty_paragraph = \<lparr>p_font = empty_font, alignment = None, p_content = []\<rparr>"

text \<open>
  A cloned placeholder has a text frame of one empty paragraph; its anchor is inherited and
  its insets are the defaults of the format (0.1 inch left and right, 0.05 inch top and
  bottom).
\<close>

definition new_text_frame :: text_frame where
  "new_text_frame =
     \<lparr>paragraphs = [empty_paragraph], vertical_anchor = None,
      margin_left = 91440, margin_right = 91440, margin_top = 45720, margin_bottom = 45720\<rparr>"

text \<open>
  \<^verbatim>\<open>prs.slides.add_slide(layout)\<close> makes a slide with the layout's placeholders. The slide
  object it returns is part of the presentation and app.py mutates it in place; nothing
  reads the presentation in between, so the model takes the new slide as a value here and
  appends it (\<open>append_slide\<close>) once the statements that mutate it have run.
\<close>

definition add_slide :: "slide_layout \<Rightarrow> slide" where
  "add_slide layout =
     \<lparr>background = InheritedFill,
      placeholders = map (\<lambda>i. (i, new_text_frame)) (layout_placeholders layout)\<rparr>"

definition append_slide :: "slide \<Rightarrow> presentation \<Rightarrow> presentation" where
  "append_slide s prs = prs\<lparr>slides := slides prs @ [s]\<rparr>"

text \<open>
  \<^verbatim>\<open>slide.shapes.title\<close> is the first placeholder with \<open>idx\<close> 0, or \<^verbatim>\<open>None\<close>, whose
  \<^verbatim>\<open>text_frame\<close> attribute then raises \<^verbatim>\<open>AttributeError\<close>; \<^verbatim>\<open>slide.placeholders[i]\<close> is the
  first placeholder with \<open>idx\<close> i, and raises \<^verbatim>\<open>KeyError\<close> when there is none.
\<close>

definition title_text_frame :: "slide \<Rightarrow> error + text_frame" where
  "title_text_frame s =
     (case map_of (placeholders s) 0 of None \<Rightarrow> Inl AttributeError | Some tf \<Rightarrow> Inr tf)"

definition placeholder_text_frame :: "slide \<Rightarrow> nat \<Rightarrow> error + text_frame" where
  "placeholder_text_frame s i =
     (case map_of (placeholders s) i of None \<Rightarrow> Inl KeyError | Some tf \<Rightarrow> Inr tf)"

text \<open>The text frame that was mutated is the one in the slide: write it back.\<close>

fun store_text_frame :: "nat \<Rightarrow> text_frame \<Rightarrow> (nat \<times> text_frame) list \<Rightarrow> (nat \<times> text_frame) list" where
  "store_text_frame i tf [] = []"
| "store_text_frame i tf ((j, old) # rest) =
     (if j = i then (j, tf) # rest else (j, old) # store_text_frame i tf rest)"

definition put_text_frame :: "nat \<Rightarrow> text_frame \<Rightarrow> slide \<Rightarrow> slide" where
  "put_text_frame i tf s = s\<lparr>placeholders := store_text_frame i tf (placeholders s)\<rparr>"

text \<open>
  \<^verbatim>\<open>tf.paragraphs[0]\<close> raises \<^verbatim>\<open>IndexError\<close> on an empty list. \<^verbatim>\<open>tf.clear()\<close> removes
  every paragraph but the first and empties that one, keeping its properties.
\<close>

definition on_paragraph0 :: "(Paragraph \<Rightarrow> Paragraph) \<Rightarrow> text_frame \<Rightarrow> error + text_frame" where
  "on_paragraph0 f tf =
     (case paragraphs tf of
        [] \<Rightarrow> Inl IndexError
      | p # ps \<Rightarrow> Inr (tf\<lparr>paragraphs := f p # ps\<rparr>))"

definition clear :: "text_frame \<Rightarrow> error + text_frame" where
  "clear tf =
     (case paragraphs tf of
        [] \<Rightarrow> Inl IndexError
      | p # ps \<Rightarrow> Inr (tf\<lparr>paragraphs := [p\<lparr>p_content := []\<rparr>]\<rparr>))"

text \<open>
  Assigning to \<^verbatim>\<open>paragraph.text\<close> replaces the content of the paragraph: the string is
  split at every line feed and vertical tab (\<^verbatim>\<open>re.split("\n|\v", text)\<close>), a line break is
  added between two pieces, and each piece that is not empty becomes a run. A run escapes
  the control characters of the class \<^verbatim>\<open>[\x00-\x08\x0B-\x1F]\<close>, each as the text
  \<^verbatim>\<open>"_x%04X_" % ord(c)\<close>. Reading \<^verbatim>\<open>paragraph.text\<close> concatenates the runs' texts, with a
  vertical tab for each line break. Strings are taken to be ones that the XML layer under
  python-pptx stores; what that layer does with a character it refuses is not modelled.
\<close>

definition hex_digit :: "nat \<Rightarrow> char" where
  "hex_digit n = ''0123456789ABCDEF'' ! (n mod 16)"

definition is_ctrl_char :: "char \<Rightarrow> bool" where
  "is_ctrl_char c \<longleftrightarrow>
     (of_char c :: nat) \<le> 8 \<or> (11 \<le> (of_char c :: nat) \<and> (of_char c :: nat) \<le> 31)"

definition escape_char :: "char \<Rightarrow> string" where
  "escape_char c =
     (let n = (of_char c :: nat)
      in ''_x'' @ [hex_digit (n div 4096), hex_digit (n div 256), hex_digit (n div 16),
                   hex_digit n] @ ''_'')"

definition escape_ctrl_chars :: "string \<Rightarrow> string" where
  "escape_ctrl_chars s = concat (map (\<lambda>c. if is_ctrl_char c then escape_char c else [c]) s)"

definition is_break_char :: "char \<Rightarrow> bool" where
  "is_break_char c \<longleftrightarrow> c = CHR 0x0A \<or> c = CHR 0x0B"

fun re_split :: "string \<Rightarrow> string list" where
  "re_split [] = [[]]"
| "re_split (c # cs) =
     (if is_break_char c then [] # re_split cs
      else (case re_split cs of
              [] \<Rightarrow> [[c]]
            | piece # rest \<Rightarrow> (c # piece) # rest))"

fun add_pieces :: "nat \<Rightarrow> string list \<Rightarrow> content list \<Rightarrow> content list" where
  "add_pieces idx [] p = p"
| "add_pieces idx (r_str # rest) p =
     (let p = (if idx > 0 then p @ [LineBreak] else p);
          p = (if r_str \<noteq> [] then p @ [Run (escape_ctrl_chars r_str)] else p)
      in add_pieces (idx + 1) rest p)"

definition append_text :: "string \<Rightarrow> content list \<Rightarrow> content list" where
  "append_text s p = add_pieces 0 (re_split s) p"

definition set_paragraph_text :: "string \<Rightarrow> Paragraph \<Rightarrow> Paragraph" where
  "set_paragraph_text s p = p\<lparr>p_content := append_text s []\<rparr>"

fun content_text :: "content \<Rightarrow> string" where
  "content_text (Run s) = s"
| "content_text LineBreak = [CHR 0x0B]"

definition children_text :: "content list \<Rightarrow> string" where
  "children_text cs = concat (map content_text cs)"

definition paragraph_text :: "Paragraph \<Rightarrow> string" where
  "paragraph_text p = children_text (p_content p)"

definition solid :: "fill \<Rightarrow> fill" where
  "solid f = (case f of SolidFill c \<Rightarrow> SolidFill c | InheritedFill \<Rightarrow> SolidFill None)"

definition set_fore_color_rgb :: "RGBColor \<Rightarrow> fill \<Rightarrow> error + fill" where
  "set_fore_color_rgb c f =
     (case f of SolidFill old \<Rightarrow> Inr (SolidFill (Some c)) | InheritedFill \<Rightarrow> Inl TypeError)"

section \<open>The renderer of app.py\<close>

text \<open>
  \<^verbatim>\<open>
  def _black_bg(slide):
      bg = slide.background.fill
      bg.solid()
      bg.fore_color.rgb = RGBColor(0, 0, 0)
  \<close>
\<close>

definition black_bg :: "slide \<Rightarrow> error + slide" where
  "black_bg s =
     bind (set_fore_color_rgb (RGBColor 0 0 0) (solid (background s)))
       (\<lambda>bg. Inr (s\<lparr>background := bg\<rparr>))"

text \<open>
  \<^verbatim>\<open>
  def _style_para(para, font_size: int, bold: bool = False):
      para.font.name = "Calibri"
      para.font.size = Pt(font_size)
      para.font.bold = bold
      para.font.color.rgb = RGBColor(255, 255, 255)
      para.alignment = PP_ALIGN.LEFT
  \<close>
\<close>

definition style_para :: "int \<Rightarrow> bool \<Rightarrow> Paragraph \<Rightarrow> Paragraph" where
  "style_para font_size bold para =
     para\<lparr>p_font := (p_font para)\<lparr>f_name := Some ''Calibri'', f_size := Some (Pt font_size),
                                  f_bold := Some bold,
                                  f_color_rgb := Some (RGBColor 255 255 255)\<rparr>,
          alignment := Some LEFT\<rparr>"

text \<open>
  \<open>build_pptx\<close> runs the same five statements on each of its four text frames, with a
  different font size, weight and text:
  \<^verbatim>\<open>
  tf.clear(); tf.vertical_anchor = MSO_VERTICAL_ANCHOR.TOP
  tf.margin_left = tf.margin_right = tf.margin_top = tf.margin_bottom = 0
  _style_para(tf.paragraphs[0], font_size, bold)
  tf.paragraphs[0].text = txt
  \<close>
\<close>

definition fill_text_frame :: "int \<Rightarrow> bool \<Rightarrow> string \<Rightarrow> text_frame \<Rightarrow> error + text_frame" where
  "fill_text_frame font_size bold txt tf =
     bind (clear tf) (\<lambda>tf.
     bind (Inr (tf\<lparr>vertical_anchor := Some TOP\<rparr>)) (\<lambda>tf.
     bind (Inr (tf\<lparr>margin_left := 0, margin_right := 0, margin_top := 0, margin_bottom := 0\<rparr>)) (\<lambda>tf.
     bind (on_paragraph0 (style_para font_size bold) tf) (\<lambda>tf.
     on_paragraph0 (set_paragraph_text txt) tf))))"

text \<open>The cover section of \<open>build_pptx\<close>, on the slide that \<open>add_slide\<close> returned.\<close>

definition cover_section :: "CoverSlide \<Rightarrow> slide \<Rightarrow> error + slide" where
  "cover_section cv s =
     bind (black_bg s) (\<lambda>s.
     bind (title_text_frame s) (\<lambda>title_tf.
     bind (fill_text_frame 54 True (title cv) title_tf) (\<lambda>title_tf.
     bind (Inr (put_text_frame 0 title_tf s)) (\<lambda>s.
     bind (placeholder_text_frame s 1) (\<lambda>subt_tf.
     bind (fill_text_frame 34 False (subtitle cv) subt_tf) (\<lambda>subt_tf.
     Inr (put_text_frame 1 subt_tf s)))))))"

text \<open>The body of the loop over \<^verbatim>\<open>carousel.qa_slides\<close>.\<close>

definition qa_section :: "QASlide \<Rightarrow> slide \<Rightarrow> error + slide" where
  "qa_section qa s =
     bind (black_bg s) (\<lambda>s.
     bind (title_text_frame s) (\<lambda>q_tf.
     bind (fill_text_frame 40 True (question qa) q_tf) (\<lambda>q_tf.
     bind (Inr (put_text_frame 0 q_tf s)) (\<lambda>s.
     bind (placeholder_text_frame s 1) (\<lambda>a_tf.
     bind (fill_text_frame 30 False (answer qa) a_tf) (\<lambda>a_tf.
     Inr (put_text_frame 1 a_tf s)))))))"

fun qa_loop :: "QASlide list \<Rightarrow> presentation \<Rightarrow> error + presentation" where
  "qa_loop [] prs = Inr prs"
| "qa_loop (qa # rest) prs =
     bind (get_layout prs 1) (\<lambda>layout.
     bind (qa_section qa (add_slide layout)) (\<lambda>s.
     qa_loop rest (append_slide s prs)))"

text \<open>
  \<open>build_pptx\<close> returns the saved package (\<^verbatim>\<open>prs.save(buf); buf.seek(0); return buf\<close>);
  the model returns the presentation that the package holds.
\<close>

definition build_pptx :: "Carousel \<Rightarrow> error + presentation" where
  "build_pptx carousel =
     (let prs = Presentation;
          prs = prs\<lparr>slide_width := Inches (45 / 4)\<rparr>;
          prs = prs\<lparr>slide_height := Inches (45 / 4)\<rparr>
      in bind (get_layout prs 0) (\<lambda>layout.
         bind (cover_section (cover carousel) (add_slide layout)) (\<lambda>s.
         qa_loop (qa_slides carousel) (append_slide s prs))))"

section \<open>The outline validator: what the pydantic models accept\<close>

text \<open>
  \<^verbatim>\<open>sllm.complete\<close> has the completion service fill the \<^verbatim>\<open>Carousel\<close> schema and validates
  the payload it gets back against the three models. The payload is a JSON value (numbers
  are integers here). An object is the list of its members in document order; where a name
  is repeated the last member counts, as \<^verbatim>\<open>json.loads\<close> has it. The models declare no
  default, no validator and no length bound: every declared field is required, members
  that are not declared are ignored, a \<^verbatim>\<open>str\<close> field takes a string, a \<^verbatim>\<open>Literal\<close> field its
  one string, a \<^verbatim>\<open>List\<close> field an array of any length. An \<^verbatim>\<open>int\<close> field takes an integer
  and, since the models validate in pydantic's lax mode, also a boolean (as 0 or 1) and a
  string that spells a decimal integer: an optional sign and digits, with white space
  around them ignored. A payload that does not fit raises pydantic's validation error, the
  \<open>SchemaViolation\<close> of the specification.
\<close>

datatype json = JNull | JBool bool | JInt int | JString string | JArray "json list"
  | JObject "(string \<times> json) list"

definition member :: "(string \<times> json) list \<Rightarrow> string \<Rightarrow> json option" where
  "member fs k = map_of (rev fs) k"

definition get_field :: "(string \<times> json) list \<Rightarrow> string \<Rightarrow> error + json" where
  "get_field fs k = (case member fs k of None \<Rightarrow> Inl SchemaViolation | Some v \<Rightarrow> Inr v)"

definition is_space :: "char \<Rightarrow> bool" where
  "is_space c \<longleftrightarrow> c = CHR '' '' \<or> (9 \<le> (of_char c :: nat) \<and> (of_char c :: nat) \<le> 13)"

definition trim :: "string \<Rightarrow> string" where
  "trim s = rev (dropWhile is_space (rev (dropWhile is_space s)))"

definition digit_value :: "char \<Rightarrow> nat option" where
  "digit_value c =
     (if 48 \<le> (of_char c :: nat) \<and> (of_char c :: nat) \<le> 57 then Some (of_char c - 48)
      else None)"

fun digits_value :: "nat \<Rightarrow> string \<Rightarrow> nat option" where
  "digits_value acc [] = Some acc"
| "digits_value acc (c # cs) =
     (case digit_value c of None \<Rightarrow> None | Some d \<Rightarrow> digits_value (10 * acc + d) cs)"

definition unsigned_value :: "string \<Rightarrow> nat option" where
  "unsigned_value s = (if s = [] then None else digits_value 0 s)"

definition str_as_int :: "string \<Rightarrow> int option" where
  "str_as_int s =
     (case trim s of
        [] \<Rightarrow> None
      | c # cs \<Rightarrow>
          if c = CHR ''-'' then map_option (\<lambda>n. - int n) (unsigned_value cs)
          else if c = CHR ''+'' then map_option int (unsigned_value cs)
          else map_option int (unsigned_value (c # cs)))"

fun validate_int :: "json \<Rightarrow> error + int" where
  "validate_int (JInt n) = Inr n"
| "validate_int (JBool b) = Inr (if b then 1 else 0)"
| "validate_int (JString s) =
     (case str_as_int s of None \<Rightarrow> Inl SchemaViolation | Some n \<Rightarrow> Inr n)"
| "validate_int _ = Inl SchemaViolation"

fun validate_str :: "json \<Rightarrow> error + string" where
  "validate_str (JString s) = Inr s"
| "validate_str _ = Inl SchemaViolation"

fun validate_literal :: "string \<Rightarrow> 'a \<Rightarrow> json \<Rightarrow> error + 'a" where
  "validate_literal tag v (JString s) = (if s = tag then Inr v else Inl SchemaViolation)"
| "validate_literal tag v _ = Inl SchemaViolation"

fun validate_CoverSlide :: "json \<Rightarrow> error + CoverSlide" where
  "validate_CoverSlide (JObject fs) =
     bind (bind (get_field fs ''slide_number'') validate_int) (\<lambda>n.
     bind (bind (get_field fs ''type'') (validate_literal ''cover'' Lit_cover)) (\<lambda>t.
     bind (bind (get_field fs ''title'') validate_str) (\<lambda>ti.
     bind (bind (get_field fs ''subtitle'') validate_str) (\<lambda>su.
     Inr \<lparr>slide_number = n, type = t, title = ti, subtitle = su\<rparr>))))"
| "validate_CoverSlide _ = Inl SchemaViolation"

fun validate_QASlide :: "json \<Rightarrow> error + QASlide" where
  "validate_QASlide (JObject fs) =
     bind (bind (get_field fs ''slide_number'') validate_int) (\<lambda>n.
     bind (bind (get_field fs ''type'') (validate_literal ''qa'' Lit_qa)) (\<lambda>t.
     bind (bind (get_field fs ''question'') validate_str) (\<lambda>q.
     bind (bind (get_field fs ''answer'') validate_str) (\<lambda>a.
     Inr \<lparr>qa_slide_number = n, qa_type = t, question = q, answer = a\<rparr>))))"
| "validate_QASlide _ = Inl SchemaViolation"

fun validate_QASlides :: "json list \<Rightarrow> error + QASlide list" where
  "validate_QASlides [] = Inr []"
| "validate_QASlides (j # js) =
     bind (validate_QASlide j) (\<lambda>q.
     bind (validate_QASlides js) (\<lambda>qs. Inr (q # qs)))"

fun validate_List_QASlide :: "json \<Rightarrow> error + QASlide list" where
  "validate_List_QASlide (JArray js) = validate_QASlides js"
| "validate_List_QASlide _ = Inl SchemaViolation"

fun validate_Carousel :: "json \<Rightarrow> error + Carousel" where
  "validate_Carousel (JObject fs) =
     bind (bind (get_field fs ''cover'') validate_CoverSlide) (\<lambda>cv.
     bind (bind (get_field fs ''qa_slides'') validate_List_QASlide) (\<lambda>qs.
     Inr \<lparr>cover = cv, qa_slides = qs\<rparr>))"
| "validate_Carousel _ = Inl SchemaViolation"

text \<open>The payload that spells a model value out (\<^verbatim>\<open>model_dump\<close>).\<close>

definition dump_CoverSlide :: "CoverSlide \<Rightarrow> json" where
  "dump_CoverSlide cv =
     JObject [(''slide_number'', JInt (slide_number cv)), (''type'', JString ''cover''),
              (''title'', JString (title cv)), (''subtitle'', JString (subtitle cv))]"

definition dump_QASlide :: "QASlide \<Rightarrow> json" where
  "dump_QASlide qa =
     JObject [(''slide_number'', JInt (qa_slide_number qa)), (''type'', JString ''qa''),
              (''question'', JString (question qa)), (''answer'', JString (answer qa))]"

definition dump_Carousel :: "Carousel \<Rightarrow> json" where
  "dump_Carousel c =
     JObject [(''cover'', dump_CoverSlide (cover c)),
              (''qa_slides'', JArray (map dump_QASlide (qa_slides c)))]"

text \<open>A record payload carries the tag \<open>t\<close> when its member \<^verbatim>\<open>type\<close> is that string.\<close>

fun has_tag :: "string \<Rightarrow> json \<Rightarrow> bool" where
  "has_tag t (JObject fs) = (member fs ''type'' = Some (JString t))"
| "has_tag t _ = False"

section \<open>The submit handler of app.py\<close>

text \<open>
  \<^verbatim>\<open>PROMPT_TMPL.format(topic=topic)\<close>: the template with the topic in both places. The
  template has two characters outside ASCII, the non-breaking hyphen U+2011 and the
  ellipsis U+2026, given here by their UTF-8 bytes.
\<close>

definition nb_hyphen :: string where
  "nb_hyphen = [char_of (226::nat), char_of (128::nat), char_of (145::nat)]"

definition ellipsis :: string where
  "ellipsis = [char_of (226::nat), char_of (128::nat), char_of (166::nat)]"

definition PROMPT_TMPL_format :: "string \<Rightarrow> string" where
  "PROMPT_TMPL_format topic =
     ''You are an expert content strategist.\<newline>\<newline>Topic: '' @ topic
     @ ''\<newline>\<newline>Task:\<newline>1. Write an inspiring one'' @ nb_hyphen
     @ ''liner subtitle for the cover slide.\<newline>''
     @ ''2. Then identify between 5 and 8 key questions someone would ask about this topic.\<newline>''
     @ ''3. For each question, provide a concise (2'' @ nb_hyphen @ ''3 line) answer.\<newline>\<newline>''
     @ ''Format your reply exactly as:\<newline>\<newline>Topic: '' @ topic
     @ ''\<newline>Subtitle: <your one'' @ nb_hyphen @ ''liner>\<newline>\<newline>''
     @ ''Questions & Answers:\<newline>1. Question: <question 1>\<newline>   Answer: <answer 1>\<newline>\<newline>''
     @ ''2. Question: <question 2>\<newline>   Answer: <answer 2>\<newline>'' @ ellipsis"

text \<open>\<^verbatim>\<open>topic.replace(' ', '_')\<close> and the f-string around it.\<close>

definition replace_space :: "string \<Rightarrow> string" where
  "replace_space s = map (\<lambda>c. if c = CHR '' '' then CHR ''_'' else c) s"

definition file_name :: "string \<Rightarrow> string" where
  "file_name topic = ''LinkedIn_Carousel_'' @ replace_space topic @ ''.pptx''"

definition mime :: string where
  "mime = ''application/vnd.openxmlformats-officedocument.presentationml.presentation''"

text \<open>
  The completion service is outside the program: \<open>llm_complete\<close> answers a prompt with a
  text or fails, \<open>structured_output\<close> answers a text with a payload for the \<^verbatim>\<open>Carousel\<close>
  schema or fails; both are called with the credential. \<^verbatim>\<open>sllm.complete\<close> is the second
  call followed by the validation. What it returns is not the outline, as the annotation
  in app.py has it (\<^verbatim>\<open>carousel: Carousel = sllm.complete(raw_response)\<close>), but a
  \<^verbatim>\<open>CompletionResponse\<close> that holds the outline in its field \<^verbatim>\<open>raw\<close> and the outline's JSON
  document as its text.
\<close>

record service =
  llm_complete :: "string \<Rightarrow> string \<Rightarrow> error + string"
  structured_output :: "string \<Rightarrow> string \<Rightarrow> error + json"

record CompletionResponse =
  response_text :: json
  raw :: Carousel

definition sllm_complete :: "service \<Rightarrow> string \<Rightarrow> string \<Rightarrow> error + CompletionResponse" where
  "sllm_complete svc api_key raw_response =
     bind (structured_output svc api_key raw_response) (\<lambda>payload.
     bind (validate_Carousel payload) (\<lambda>output.
     Inr \<lparr>response_text = dump_Carousel output, raw = output\<rparr>))"

text \<open>
  Python does not check the annotation of a parameter: \<open>build_pptx\<close> runs on the object
  it is given. The first statement that reads the argument is \<^verbatim>\<open>cover = carousel.cover\<close>;
  a \<^verbatim>\<open>CompletionResponse\<close> has no attribute \<^verbatim>\<open>cover\<close>, so the call ends there with
  \<^verbatim>\<open>AttributeError\<close>. The statements before it, which open the template and set the
  canvas, do not fail.
\<close>

datatype pyobject = A_Carousel Carousel | A_CompletionResponse CompletionResponse

definition call_build_pptx :: "pyobject \<Rightarrow> error + presentation" where
  "call_build_pptx obj =
     (case obj of
        A_Carousel carousel \<Rightarrow> build_pptx carousel
      | A_CompletionResponse response \<Rightarrow> Inl AttributeError)"

datatype call = Complete string string | StructuredComplete string string

text \<open>
  What one run of the script shows to the user: nothing when the form was not submitted,
  an error message followed by \<^verbatim>\<open>st.stop()\<close>, an exception that ended the run, or the
  download button with its data, file name and MIME type. A run also records the outbound
  calls it made, in order, and the credential it stored in the process environment
  (\<^verbatim>\<open>os.environ["GROQ_API_KEY"] = api_key\<close>), which happens once both inputs have passed
  the check.
\<close>

datatype outcome = NotSubmitted | StError string | Raised error
  | Download presentation string string

record run =
  calls :: "call list"
  environ_GROQ_API_KEY :: "string option"
  outcome :: outcome

definition submit_handler :: "service \<Rightarrow> bool \<Rightarrow> string \<Rightarrow> string \<Rightarrow> run" where
  "submit_handler svc submit topic api_key =
     (if \<not> submit then \<lparr>calls = [], environ_GROQ_API_KEY = None, outcome = NotSubmitted\<rparr>
      else if topic = [] then
        \<lparr>calls = [], environ_GROQ_API_KEY = None, outcome = StError ''Please enter a topic.''\<rparr>
      else if api_key = [] then
        \<lparr>calls = [], environ_GROQ_API_KEY = None,
         outcome = StError ''Please enter your Groq API key.''\<rparr>
      else
        (let prompt = PROMPT_TMPL_format topic;
             calls1 = [Complete api_key prompt]
         in (case llm_complete svc api_key prompt of
               Inl e \<Rightarrow>
                 \<lparr>calls = calls1, environ_GROQ_API_KEY = Some api_key, outcome = Raised e\<rparr>
             | Inr raw_response \<Rightarrow>
                 (let calls2 = calls1 @ [StructuredComplete api_key raw_response]
                  in (case sllm_complete svc api_key raw_response of
                        Inl e \<Rightarrow>
                          \<lparr>calls = calls2, environ_GROQ_API_KEY = Some api_key,
                           outcome = Raised e\<rparr>
                      | Inr carousel \<Rightarrow>
                          (case call_build_pptx (A_CompletionResponse carousel) of
                             Inl e \<Rightarrow>
                               \<lparr>calls = calls2, environ_GROQ_API_KEY = Some api_key,
                                outcome = Raised e\<rparr>
                           | Inr ppt_buf \<Rightarrow>
                               \<lparr>calls = calls2, environ_GROQ_API_KEY = Some api_key,
                                outcome = Download ppt_buf (file_name topic) mime\<rparr>))))))"

section \<open>Reading a document\<close>

text \<open>
  The text region of a slide with placeholder index \<open>i\<close>, and what python-pptx reports as
  its text (\<^verbatim>\<open>text_frame.text\<close>: the paragraphs' texts joined by line feeds), its font
  scales and weights, paragraph by paragraph.
\<close>

definition region :: "slide \<Rightarrow> nat \<Rightarrow> text_frame option" where
  "region s i = map_of (placeholders s) i"

fun join_lines :: "string list \<Rightarrow> string" where
  "join_lines [] = []"
| "join_lines [l] = l"
| "join_lines (l # ls) = l @ ''\<newline>'' @ join_lines ls"

definition frame_text :: "text_frame \<Rightarrow> string" where
  "frame_text tf = join_lines (map paragraph_text (paragraphs tf))"

definition region_text :: "slide \<Rightarrow> nat \<Rightarrow> string option" where
  "region_text s i = map_option frame_text (region s i)"

definition region_scale :: "slide \<Rightarrow> nat \<Rightarrow> (int option \<times> bool option) list" where
  "region_scale s i =
     (case region s i of
        None \<Rightarrow> []
      | Some tf \<Rightarrow> map (\<lambda>p. (f_size (p_font p), f_bold (p_font p))) (paragraphs tf))"

definition slide_texts :: "slide \<Rightarrow> string option \<times> string option" where
  "slide_texts s = (region_text s 0, region_text s 1)"

text \<open>
  What a region reads back after a string was assigned to it, character by character: a
  line feed or a vertical tab comes back as a vertical tab, a control character of the
  escaped class as its escape, any other character as itself. A string is plain when it
  has none of the characters that change.
\<close>

definition stored_char :: "char \<Rightarrow> string" where
  "stored_char c =
     (if is_break_char c then [CHR 0x0B]
      else if is_ctrl_char c then escape_char c
      else [c])"

definition as_stored :: "string \<Rightarrow> string" where
  "as_stored s = concat (map stored_char s)"

definition plain :: "string \<Rightarrow> bool" where
  "plain s \<longleftrightarrow> (\<forall>c \<in> set s. \<not> is_break_char c \<and> \<not> is_ctrl_char c)"


text \<open>The theme of a text region: white, left-aligned, top-anchored, no inset.\<close>

definition themed :: "text_frame \<Rightarrow> bool" where
  "themed tf \<longleftrightarrow>
     paragraphs tf \<noteq> [] \<and>
     (\<forall>p \<in> set (paragraphs tf).
        f_color_rgb (p_font p) = Some (RGBColor 255 255 255) \<and> alignment p = Some LEFT) \<and>
     vertical_anchor tf = Some TOP \<and>
     margin_left tf = 0 \<and> margin_right tf = 0 \<and> margin_top tf = 0 \<and> margin_bottom tf = 0"

text \<open>An outline with every position set to 0: what is left when positions are ignored.\<close>

definition erase_positions :: "Carousel \<Rightarrow> Carousel" where
  "erase_positions c =
     \<lparr>cover = (cover c)\<lparr>slide_number := 0\<rparr>,
      qa_slides = map (\<lambda>q. q\<lparr>qa_slide_number := 0\<rparr>) (qa_slides c)\<rparr>"

text \<open>A file-name character that is a letter, a digit, an underscore or a dot.\<close>

definition safe_char :: "char \<Rightarrow> bool" where
  "safe_char c \<longleftrightarrow>
     c \<in> set ''abcdefghijklmnopqrstuvwxyzABCDEFGHIJKLMNOPQRSTUVWXYZ0123456789_.''"

subsection \<open>The slides that the renderer is shown to produce\<close>

definition styled_frame :: "int \<Rightarrow> bool \<Rightarrow> string \<Rightarrow> text_frame" where
  "styled_frame n b txt =
     \<lparr>paragraphs =
        [\<lparr>p_font = \<lparr>f_name = Some ''Calibri'', f_size = Some (Pt n), f_bold = Some b,
                    f_color_rgb = Some (RGBColor 255 255 255)\<rparr>,
          alignment = Some LEFT, p_content = append_text txt []\<rparr>],
      vertical_anchor = Some TOP,
      margin_left = 0, margin_right = 0, margin_top = 0, margin_bottom = 0\<rparr>"

definition rendered_slide :: "int \<Rightarrow> string \<Rightarrow> int \<Rightarrow> string \<Rightarrow> slide" where
  "rendered_slide n0 t0 n1 t1 =
     \<lparr>background = SolidFill (Some (RGBColor 0 0 0)),
      placeholders = [(0, styled_frame n0 True t0), (1, styled_frame n1 False t1)]\<rparr>"

definition cover_rendered :: "CoverSlide \<Rightarrow> slide" where
  "cover_rendered cv = rendered_slide 54 (title cv) 34 (subtitle cv)"

definition qa_rendered :: "QASlide \<Rightarrow> slide" where
  "qa_rendered qa = rendered_slide 40 (question qa) 30 (answer qa)"

subsection \<open>Sample inputs\<close>

definition sample_outline :: Carousel where
  "sample_outline =
     \<lparr>cover = \<lparr>slide_number = 1, type = Lit_cover, title = ''Game Theory'',
               subtitle = ''Outsmart, do not outspend''\<rparr>,
      qa_slides =
        [\<lparr>qa_slide_number = 2, qa_type = Lit_qa, question = ''What is a Nash equilibrium?'',
          answer = ''A state where no player benefits from changing strategy alone.''\<rparr>,
         \<lparr>qa_slide_number = 3, qa_type = Lit_qa, question = ''What is a zero-sum game?'',
          answer = ''A game in which one player gains what the other loses.''\<rparr>]\<rparr>"

definition renumbered_outline :: Carousel where
  "renumbered_outline =
     \<lparr>cover = \<lparr>slide_number = 9, type = Lit_cover, title = ''Game Theory'',
               subtitle = ''Outsmart, do not outspend''\<rparr>,
      qa_slides =
        [\<lparr>qa_slide_number = 3, qa_type = Lit_qa, question = ''What is a Nash equilibrium?'',
          answer = ''A state where no player benefits from changing strategy alone.''\<rparr>,
         \<lparr>qa_slide_number = 2, qa_type = Lit_qa, question = ''What is a zero-sum game?'',
          answer = ''A game in which one player gains what the other loses.''\<rparr>]\<rparr>"


definition sample_cover_json :: "string \<Rightarrow> json" where
  "sample_cover_json tag =
     JObject [(''slide_number'', JInt 1), (''type'', JString tag),
              (''title'', JString ''Game Theory''), (''subtitle'', JString ''Play well'')]"

definition sample_qa_json :: "int \<Rightarrow> string \<Rightarrow> json" where
  "sample_qa_json n tag =
     JObject [(''slide_number'', JInt n), (''type'', JString tag),
              (''question'', JString ''What is a Nash equilibrium?''),
              (''answer'', JString ''No player gains by deviating alone.'')]"

definition sample_service :: "json \<Rightarrow> service" where
  "sample_service payload =
     \<lparr>llm_complete = (\<lambda>api_key prompt. Inr ''Topic: Game Theory''),
      structured_output = (\<lambda>api_key raw_response. Inr payload)\<rparr>"

definition zero_pairs_payload :: json where
  "zero_pairs_payload =
     JObject [(''cover'', sample_cover_json ''cover''), (''qa_slides'', JArray [])]"

definition odd_position_payload :: json where
  "odd_position_payload =
     JObject [(''cover'', sample_cover_json ''cover''),
              (''qa_slides'', JArray [sample_qa_json 7 ''qa''])]"

definition no_cover_fields :: "(string \<times> json) list" where
  "no_cover_fields = [(''qa_slides'', JArray [sample_qa_json 2 ''qa''])]"

definition wrong_cover_tag_fields :: "(string \<times> json) list" where
  "wrong_cover_tag_fields =
     [(''cover'', sample_cover_json ''qa''), (''qa_slides'', JArray [sample_qa_json 2 ''qa''])]"

definition wrong_qa_tag_fields :: "(string \<times> json) list" where
  "wrong_qa_tag_fields =
     [(''cover'', sample_cover_json ''cover''),
      (''qa_slides'', JArray [sample_qa_json 2 ''qa'', sample_qa_json 3 ''cover''])]"

section \<open>What a paragraph reads back\<close>

text \<open>
  Splitting, escaping and joining again amounts to the character-wise reading \<open>as_stored\<close>,
  which changes nothing in a plain string.
\<close>

lemma re_split_nonempty: "re_split s \<noteq> []"
  by (induction s) (auto split: list.splits)

lemma escape_ctrl_chars_Nil: "escape_ctrl_chars [] = []"
  by (simp add: escape_ctrl_chars_def)

lemma escape_ctrl_chars_Cons:
  "escape_ctrl_chars (c # cs) =
     (if is_ctrl_char c then escape_char c else [c]) @ escape_ctrl_chars cs"
  by (simp add: escape_ctrl_chars_def)

lemma add_pieces_later:
  "0 < idx \<Longrightarrow> children_text (add_pieces idx ps p) =
     children_text p @ concat (map (\<lambda>r. CHR 0x0B # escape_ctrl_chars r) ps)"
proof (induction ps arbitrary: idx p)
  case Nil
  then show ?case by simp
next
  case (Cons r ps)
  then show ?case
    by (simp add: children_text_def Let_def escape_ctrl_chars_Nil)
qed

lemma add_pieces_first:
  "children_text (add_pieces 0 (r # ps) p) =
     children_text p @ escape_ctrl_chars r
       @ concat (map (\<lambda>r. CHR 0x0B # escape_ctrl_chars r) ps)"
  by (simp add: Let_def add_pieces_later) (simp add: children_text_def escape_ctrl_chars_Nil)

lemma pieces_as_stored:
  "re_split s = r # ps \<Longrightarrow>
   escape_ctrl_chars r @ concat (map (\<lambda>r. CHR 0x0B # escape_ctrl_chars r) ps) = as_stored s"
proof (induction s arbitrary: r ps)
  case Nil
  then show ?case by (simp add: as_stored_def escape_ctrl_chars_Nil)
next
  case (Cons c cs)
  obtain r' ps' where sp: "re_split cs = r' # ps'"
    using re_split_nonempty [of cs] by (cases "re_split cs") auto
  note ih = Cons.IH [OF sp]
  show ?case
  proof (cases "is_break_char c")
    case True
    with Cons.prems sp have "r = []" and "ps = r' # ps'" by auto
    with ih True show ?thesis
      by (simp add: as_stored_def stored_char_def escape_ctrl_chars_Nil)
  next
    case False
    with Cons.prems sp have "r = c # r'" and "ps = ps'" by auto
    with ih False show ?thesis
      by (simp add: as_stored_def stored_char_def escape_ctrl_chars_Cons)
  qed
qed

lemma append_text_as_stored: "children_text (append_text s []) = as_stored s"
proof -
  obtain r ps where sp: "re_split s = r # ps"
    using re_split_nonempty [of s] by (cases "re_split s") auto
  show ?thesis
    unfolding append_text_def sp add_pieces_first
    by (simp add: pieces_as_stored [OF sp] children_text_def)
qed

lemma as_stored_plain: "plain s \<Longrightarrow> as_stored s = s"
  by (induction s) (simp_all add: as_stored_def plain_def stored_char_def)

lemma frame_text_styled_frame: "frame_text (styled_frame n b s) = as_stored s"
  by (simp add: frame_text_def styled_frame_def paragraph_text_def append_text_as_stored)

section \<open>The renderer in closed form\<close>

text \<open>
  On the default template every step of \<open>build_pptx\<close> succeeds, so the document can be
  written down: the square canvas, the cover slide, and one slide for each question/answer
  record in list order.
\<close>

lemma fill_text_frame_new:
  "fill_text_frame n b txt new_text_frame = Inr (styled_frame n b txt)"
  by (simp add: fill_text_frame_def bind_def clear_def on_paragraph0_def new_text_frame_def
      style_para_def styled_frame_def empty_paragraph_def empty_font_def set_paragraph_text_def)

lemma black_bg_add_slide:
  "black_bg (add_slide l) = Inr ((add_slide l)\<lparr>background := SolidFill (Some (RGBColor 0 0 0))\<rparr>)"
  by (simp add: black_bg_def bind_def solid_def set_fore_color_rgb_def add_slide_def)

lemma two_region_section:
  assumes "layout_placeholders l = [0, 1]"
  shows "bind (black_bg (add_slide l)) (\<lambda>s.
     bind (title_text_frame s) (\<lambda>q_tf.
     bind (fill_text_frame n0 True t0 q_tf) (\<lambda>q_tf.
     bind (Inr (put_text_frame 0 q_tf s)) (\<lambda>s.
     bind (placeholder_text_frame s 1) (\<lambda>a_tf.
     bind (fill_text_frame n1 False t1 a_tf) (\<lambda>a_tf.
     Inr (put_text_frame 1 a_tf s))))))) = Inr (rendered_slide n0 t0 n1 t1)"
proof -
  have bg: "black_bg (add_slide l) =
      Inr \<lparr>background = SolidFill (Some (RGBColor 0 0 0)),
           placeholders = [(0, new_text_frame), (1, new_text_frame)]\<rparr>"
    using assms by (simp add: black_bg_add_slide) (simp add: add_slide_def)
  show ?thesis
    by (simp add: bg bind_def title_text_frame_def placeholder_text_frame_def
        put_text_frame_def fill_text_frame_new rendered_slide_def)
qed

lemma cover_section_ok:
  "layout_placeholders l = [0, 1] \<Longrightarrow> cover_section cv (add_slide l) = Inr (cover_rendered cv)"
  unfolding cover_section_def cover_rendered_def by (rule two_region_section)

lemma qa_section_ok:
  "layout_placeholders l = [0, 1] \<Longrightarrow> qa_section qa (add_slide l) = Inr (qa_rendered qa)"
  unfolding qa_section_def qa_rendered_def by (rule two_region_section)

lemma qa_loop_ok:
  "slide_layouts prs = slide_layouts Presentation \<Longrightarrow>
   qa_loop qs prs = Inr (prs\<lparr>slides := slides prs @ map qa_rendered qs\<rparr>)"
proof (induction qs arbitrary: prs)
  case Nil
  then show ?case by simp
next
  case (Cons qa rest)
  have l1: "get_layout prs 1 = Inr (slide_layouts Presentation ! 1)"
    using Cons.prems by (simp add: get_layout_def Presentation_def)
  have ph: "layout_placeholders (slide_layouts Presentation ! 1) = [0, 1]"
    by (simp add: Presentation_def)
  have lay: "slide_layouts (append_slide (qa_rendered qa) prs) = slide_layouts Presentation"
    using Cons.prems by (simp add: append_slide_def)
  have "qa_loop (qa # rest) prs = qa_loop rest (append_slide (qa_rendered qa) prs)"
    by (simp only: qa_loop.simps l1 bind_def sum.case qa_section_ok [OF ph])
  also have "\<dots> = Inr (prs\<lparr>slides := slides prs @ map qa_rendered (qa # rest)\<rparr>)"
    by (simp add: Cons.IH [OF lay]) (simp add: append_slide_def)
  finally show ?case .
qed

lemma Inches_canvas: "Inches (45 / 4) = 10287000"
  by (simp add: Inches_def)

lemma build_pptx_ok:
  "build_pptx c =
     Inr \<lparr>slide_width = 10287000, slide_height = 10287000,
          slide_layouts = slide_layouts Presentation,
          slides = cover_rendered (cover c) # map qa_rendered (qa_slides c)\<rparr>"
proof -
  have l0: "\<And>prs. slide_layouts prs = slide_layouts Presentation \<Longrightarrow>
       get_layout prs 0 = Inr (slide_layouts Presentation ! 0)"
    by (simp add: get_layout_def Presentation_def)
  have ph: "layout_placeholders (slide_layouts Presentation ! 0) = [0, 1]"
    by (simp add: Presentation_def)
  show ?thesis
    by (simp add: build_pptx_def Let_def l0 bind_def cover_section_ok [OF ph] qa_loop_ok
        append_slide_def Inches_canvas)
      (simp add: Presentation_def)
qed

lemma region_text_rendered:
  "region_text (rendered_slide n0 t0 n1 t1) 0 = Some (as_stored t0)"
  "region_text (rendered_slide n0 t0 n1 t1) (Suc 0) = Some (as_stored t1)"
  by (simp_all add: region_text_def region_def rendered_slide_def frame_text_styled_frame)

lemma region_scale_rendered:
  "region_scale (rendered_slide n0 t0 n1 t1) 0 = [(Some (Pt n0), Some True)]"
  "region_scale (rendered_slide n0 t0 n1 t1) (Suc 0) = [(Some (Pt n1), Some False)]"
  by (simp_all add: region_scale_def region_def rendered_slide_def styled_frame_def)

lemma themed_styled_frame: "themed (styled_frame n b txt)"
  by (simp add: themed_def styled_frame_def)


lemma slide_texts_rendered:
  "slide_texts (rendered_slide n0 t0 n1 t1) = (Some (as_stored t0), Some (as_stored t1))"
  by (simp add: slide_texts_def region_text_rendered)

lemma build_pptx_erase: "build_pptx (erase_positions c) = build_pptx c"
  by (simp add: build_pptx_ok erase_positions_def cover_rendered_def qa_rendered_def)

section \<open>What the validator rejects and accepts\<close>

text \<open>Validation has one way to fail.\<close>

lemma validate_int_error: "validate_int j = Inl e \<Longrightarrow> e = SchemaViolation"
  by (cases j) (simp_all split: option.splits)

lemma validate_str_error: "validate_str j = Inl e \<Longrightarrow> e = SchemaViolation"
  by (cases j) simp_all

lemma validate_literal_error: "validate_literal t v j = Inl e \<Longrightarrow> e = SchemaViolation"
  by (cases j) (simp_all split: if_splits)

lemma get_field_error: "get_field fs k = Inl e \<Longrightarrow> e = SchemaViolation"
  by (simp add: get_field_def split: option.splits)

lemma bind_error:
  assumes "bind m f = Inl e"
    and "\<And>e'. m = Inl e' \<Longrightarrow> e' = SchemaViolation"
    and "\<And>x e'. f x = Inl e' \<Longrightarrow> e' = SchemaViolation"
  shows "e = SchemaViolation"
  using assms by (cases m) (auto simp: bind_def)

lemma validate_CoverSlide_error: "validate_CoverSlide j = Inl e \<Longrightarrow> e = SchemaViolation"
proof (cases j)
  case (JObject fs)
  assume "validate_CoverSlide j = Inl e"
  then show ?thesis unfolding JObject validate_CoverSlide.simps
    by (elim bind_error get_field_error validate_int_error validate_str_error
        validate_literal_error) simp_all
qed simp_all

lemma validate_QASlide_error: "validate_QASlide j = Inl e \<Longrightarrow> e = SchemaViolation"
proof (cases j)
  case (JObject fs)
  assume "validate_QASlide j = Inl e"
  then show ?thesis unfolding JObject validate_QASlide.simps
    by (elim bind_error get_field_error validate_int_error validate_str_error
        validate_literal_error) simp_all
qed simp_all

lemma validate_QASlides_error: "validate_QASlides js = Inl e \<Longrightarrow> e = SchemaViolation"
proof (induction js arbitrary: e)
  case Nil
  then show ?case by simp
next
  case (Cons j js)
  from Cons.prems show ?case unfolding validate_QASlides.simps
    by (elim bind_error validate_QASlide_error Cons.IH) simp_all
qed

lemma validate_List_QASlide_error: "validate_List_QASlide j = Inl e \<Longrightarrow> e = SchemaViolation"
  by (cases j) (simp_all add: validate_QASlides_error)

lemma validate_Carousel_error: "validate_Carousel j = Inl e \<Longrightarrow> e = SchemaViolation"
proof (cases j)
  case (JObject fs)
  assume "validate_Carousel j = Inl e"
  then show ?thesis unfolding JObject validate_Carousel.simps
    by (elim bind_error get_field_error validate_CoverSlide_error validate_List_QASlide_error)
      simp_all
qed simp_all

text \<open>A record that is accepted carries its tag.\<close>

lemma validate_CoverSlide_tag: "validate_CoverSlide j = Inr cv \<Longrightarrow> has_tag ''cover'' j"
proof (cases j)
  case (JObject fs)
  assume ok: "validate_CoverSlide j = Inr cv"
  show ?thesis
  proof (cases "member fs ''type''")
    case None
    with ok JObject show ?thesis
      by (simp add: bind_def get_field_def split: sum.splits)
  next
    case (Some t)
    with ok JObject show ?thesis
      by (cases t) (simp_all add: bind_def get_field_def split: sum.splits if_splits)
  qed
qed simp_all

lemma validate_QASlide_tag: "validate_QASlide j = Inr qa \<Longrightarrow> has_tag ''qa'' j"
proof (cases j)
  case (JObject fs)
  assume ok: "validate_QASlide j = Inr qa"
  show ?thesis
  proof (cases "member fs ''type''")
    case None
    with ok JObject show ?thesis
      by (simp add: bind_def get_field_def split: sum.splits)
  next
    case (Some t)
    with ok JObject show ?thesis
      by (cases t) (simp_all add: bind_def get_field_def split: sum.splits if_splits)
  qed
qed simp_all

lemma validate_QASlides_tag:
  "validate_QASlides js = Inr qs \<Longrightarrow> j \<in> set js \<Longrightarrow> has_tag ''qa'' j"
proof (induction js arbitrary: qs)
  case Nil
  then show ?case by simp
next
  case (Cons a js)
  from Cons.prems(1) obtain q qs' where a: "validate_QASlide a = Inr q"
    and rest: "validate_QASlides js = Inr qs'"
    by (auto simp: bind_def split: sum.splits)
  from Cons.prems(2) show ?case
    using validate_QASlide_tag [OF a] Cons.IH [OF rest] by auto
qed

lemma validate_Carousel_accepts:
  assumes "validate_Carousel (JObject fs) = Inr c"
  shows "\<exists>cv. member fs ''cover'' = Some cv \<and> has_tag ''cover'' cv"
    and "\<And>items q. member fs ''qa_slides'' = Some (JArray items) \<Longrightarrow> q \<in> set items
           \<Longrightarrow> has_tag ''qa'' q"
proof -
  from assms obtain cj cv where cj: "member fs ''cover'' = Some cj"
    and cv: "validate_CoverSlide cj = Inr cv"
    by (auto simp: bind_def get_field_def split: sum.splits option.splits)
  then show "\<exists>cv. member fs ''cover'' = Some cv \<and> has_tag ''cover'' cv"
    using validate_CoverSlide_tag by blast
next
  fix items q
  assume items: "member fs ''qa_slides'' = Some (JArray items)" and q: "q \<in> set items"
  from assms items obtain qs where "validate_QASlides items = Inr qs"
    by (auto simp: bind_def get_field_def split: sum.splits option.splits)
  then show "has_tag ''qa'' q" using q by (rule validate_QASlides_tag)
qed

text \<open>The payload that spells an outline out is accepted and gives the outline back.\<close>

lemma validate_dump_CoverSlide: "validate_CoverSlide (dump_CoverSlide cv) = Inr cv"
  by (cases cv, cases "type cv") (simp_all add: dump_CoverSlide_def bind_def get_field_def member_def)

lemma validate_dump_QASlide: "validate_QASlide (dump_QASlide qa) = Inr qa"
  by (cases qa, cases "qa_type qa") (simp_all add: dump_QASlide_def bind_def get_field_def member_def)

lemma validate_dump_QASlides: "validate_QASlides (map dump_QASlide qs) = Inr qs"
  by (induction qs) (simp_all add: validate_dump_QASlide bind_def)

lemma validate_dump_Carousel: "validate_Carousel (dump_Carousel c) = Inr c"
  by (simp add: dump_Carousel_def bind_def get_field_def member_def validate_dump_CoverSlide
      validate_dump_QASlides)

section \<open>The claims\<close>

subsection \<open>C1: slide count\<close>


subsection \<open>C2: the texts\<close>




subsection \<open>C3: rejection\<close>

text \<open>
  The claim as written also has a payload with zero question/answer pairs rejected with
  \<open>SchemaViolation\<close>. The models give \<^verbatim>\<open>qa_slides\<close> the type \<^verbatim>\<open>List[QASlide]\<close> with no
  length bound: the payload with a cover and an empty list is accepted by the validator.
  The run that gets it does not end with \<open>SchemaViolation\<close>; it ends in the call of
  \<open>build_pptx\<close>, with \<^verbatim>\<open>AttributeError\<close>.
\<close>

theorem zero_pairs_accepted:
  "validate_Carousel zero_pairs_payload =
     Inr \<lparr>cover = \<lparr>slide_number = 1, type = Lit_cover, title = ''Game Theory'',
                    subtitle = ''Play well''\<rparr>,
          qa_slides = []\<rparr> \<and>
   validate_Carousel zero_pairs_payload \<noteq> Inl SchemaViolation \<and>
   outcome (submit_handler (sample_service zero_pairs_payload) True ''Game Theory'' ''gsk'')
     = Raised AttributeError \<and>
   Raised AttributeError \<noteq> Raised SchemaViolation"
proof -
  have v: "validate_Carousel zero_pairs_payload =
     Inr \<lparr>cover = \<lparr>slide_number = 1, type = Lit_cover, title = ''Game Theory'',
                    subtitle = ''Play well''\<rparr>,
          qa_slides = []\<rparr>"
    by (simp add: zero_pairs_payload_def sample_cover_json_def bind_def get_field_def
        member_def)
  show ?thesis
    by (simp add: v submit_handler_def sample_service_def sllm_complete_def bind_def Let_def
        call_build_pptx_def)
qed

text \<open>
  C3, amended. A payload object that has no cover block, or whose cover block does not carry
  the tag \<^verbatim>\<open>cover\<close>, or one of whose question/answer items does not carry the tag \<^verbatim>\<open>qa\<close>,
  is rejected with \<open>SchemaViolation\<close>; a run of the handler that gets such a payload
  from the completion service ends with that error and offers no document.
\<close>

theorem schema_violation:
  assumes "member fs ''cover'' = None
      \<or> (\<exists>cv. member fs ''cover'' = Some cv \<and> \<not> has_tag ''cover'' cv)
      \<or> (\<exists>items q. member fs ''qa_slides'' = Some (JArray items) \<and> q \<in> set items
            \<and> \<not> has_tag ''qa'' q)"
    and "topic \<noteq> []" and "api_key \<noteq> []"
    and "llm_complete svc api_key (PROMPT_TMPL_format topic) = Inr raw_response"
    and "structured_output svc api_key raw_response = Inr (JObject fs)"
  shows "validate_Carousel (JObject fs) = Inl SchemaViolation \<and>
         outcome (submit_handler svc True topic api_key) = Raised SchemaViolation"
proof -
  have "validate_Carousel (JObject fs) = Inl SchemaViolation"
  proof (cases "validate_Carousel (JObject fs)")
    case (Inl e)
    then show ?thesis using validate_Carousel_error by blast
  next
    case (Inr c)
    from validate_Carousel_accepts [OF Inr] assms(1) show ?thesis by auto
  qed
  then show ?thesis using assms(2-5)
    by (simp add: submit_handler_def sllm_complete_def bind_def Let_def)
qed

text \<open>
  Three runs: a payload without cover, one whose cover is tagged \<^verbatim>\<open>qa\<close>, one whose second
  question/answer item is tagged \<^verbatim>\<open>cover\<close>.
\<close>

theorem schema_violation_witness:
  "outcome (submit_handler (sample_service (JObject no_cover_fields)) True ''Game Theory'' ''gsk'')
     = Raised SchemaViolation \<and>
   outcome (submit_handler (sample_service (JObject wrong_cover_tag_fields)) True ''Game Theory'' ''gsk'')
     = Raised SchemaViolation \<and>
   outcome (submit_handler (sample_service (JObject wrong_qa_tag_fields)) True ''Game Theory'' ''gsk'')
     = Raised SchemaViolation \<and>
   validate_Carousel (JObject wrong_qa_tag_fields) = Inl SchemaViolation"
proof -
  have t: "''Game Theory'' \<noteq> []" and k: "''gsk'' \<noteq> []"
    by simp_all
  have l: "\<And>p. llm_complete (sample_service p) ''gsk'' (PROMPT_TMPL_format ''Game Theory'')
        = Inr ''Topic: Game Theory''"
    and s: "\<And>p. structured_output (sample_service p) ''gsk'' ''Topic: Game Theory'' = Inr p"
    by (simp_all add: sample_service_def)
  have a: "member no_cover_fields ''cover'' = None
      \<or> (\<exists>cv. member no_cover_fields ''cover'' = Some cv \<and> \<not> has_tag ''cover'' cv)
      \<or> (\<exists>items q. member no_cover_fields ''qa_slides'' = Some (JArray items) \<and> q \<in> set items
            \<and> \<not> has_tag ''qa'' q)"
    by (simp add: no_cover_fields_def member_def)
  have "member wrong_cover_tag_fields ''cover'' = Some (sample_cover_json ''qa'')
        \<and> \<not> has_tag ''cover'' (sample_cover_json ''qa'')"
    by (simp add: wrong_cover_tag_fields_def sample_cover_json_def member_def)
  then have b: "member wrong_cover_tag_fields ''cover'' = None
      \<or> (\<exists>cv. member wrong_cover_tag_fields ''cover'' = Some cv \<and> \<not> has_tag ''cover'' cv)
      \<or> (\<exists>items q. member wrong_cover_tag_fields ''qa_slides'' = Some (JArray items)
            \<and> q \<in> set items \<and> \<not> has_tag ''qa'' q)"
    by blast
  have "member wrong_qa_tag_fields ''qa_slides''
          = Some (JArray [sample_qa_json 2 ''qa'', sample_qa_json 3 ''cover''])
        \<and> sample_qa_json 3 ''cover'' \<in> set [sample_qa_json 2 ''qa'', sample_qa_json 3 ''cover'']
        \<and> \<not> has_tag ''qa'' (sample_qa_json 3 ''cover'')"
    by (simp add: wrong_qa_tag_fields_def sample_qa_json_def member_def)
  then have c: "member wrong_qa_tag_fields ''cover'' = None
      \<or> (\<exists>cv. member wrong_qa_tag_fields ''cover'' = Some cv \<and> \<not> has_tag ''cover'' cv)
      \<or> (\<exists>items q. member wrong_qa_tag_fields ''qa_slides'' = Some (JArray items)
            \<and> q \<in> set items \<and> \<not> has_tag ''qa'' q)"
    by blast
  show ?thesis
    using schema_violation [OF a t k l s] schema_violation [OF b t k l s]
      schema_violation [OF c t k l s]
    by simp
qed

subsection \<open>C4: canvas and theme\<close>

text \<open>
  C4. Rendering succeeds; the canvas is square; every slide has a solid black background;
  and every text region of every slide has at least one paragraph, all of them white and
  left-aligned, is anchored at the top and has zero inset on its four sides.
\<close>

theorem render_theme:
  "\<exists>d. build_pptx c = Inr d \<and>
       slide_width d = slide_height d \<and>
       (\<forall>s \<in> set (slides d).
          background s = SolidFill (Some (RGBColor 0 0 0)) \<and>
          (\<forall>(i, tf) \<in> set (placeholders s). themed tf))"
  by (auto simp: build_pptx_ok cover_rendered_def qa_rendered_def rendered_slide_def
      themed_styled_frame)

text \<open>On the sample outline: the answer region of the second question/answer slide.\<close>

theorem render_theme_witness:
  "\<exists>d s tf. build_pptx sample_outline = Inr d \<and> slide_width d = slide_height d \<and>
      s \<in> set (slides d) \<and> s = qa_rendered (qa_slides sample_outline ! 1) \<and>
      background s = SolidFill (Some (RGBColor 0 0 0)) \<and>
      (1, tf) \<in> set (placeholders s) \<and> themed tf \<and>
      frame_text tf = ''A game in which one player gains what the other loses.''"
proof -
  from render_theme [of sample_outline] obtain d where
    d: "build_pptx sample_outline = Inr d" and sq: "slide_width d = slide_height d"
    and th: "\<forall>s \<in> set (slides d).
          background s = SolidFill (Some (RGBColor 0 0 0)) \<and>
          (\<forall>(i, tf) \<in> set (placeholders s). themed tf)"
    by blast
  let ?s = "qa_rendered (qa_slides sample_outline ! 1)"
  let ?tf = "styled_frame 30 False ''A game in which one player gains what the other loses.''"
  from d have s: "?s \<in> set (slides d)"
    by (auto simp: build_pptx_ok sample_outline_def)
  have p: "(1, ?tf) \<in> set (placeholders ?s)"
    by (simp add: qa_rendered_def rendered_slide_def sample_outline_def)
  from th s have bg: "background ?s = SolidFill (Some (RGBColor 0 0 0))"
    and "\<forall>(i, tf) \<in> set (placeholders ?s). themed tf"
    by blast+
  with p have "themed ?tf" by blast
  moreover have "frame_text ?tf = ''A game in which one player gains what the other loses.''"
    by (simp add: frame_text_styled_frame as_stored_plain plain_def is_break_char_def
        is_ctrl_char_def)
  ultimately show ?thesis using d sq s bg p by blast
qed

subsection \<open>C5: font scales\<close>

text \<open>
  C5. Rendering succeeds; the cover title is bold at 54 pt and the cover subtitle not bold
  at 34 pt, which is smaller; every question is bold at 40 pt and every answer not bold
  at 30 pt; and 30 pt < 40 pt < 54 pt, so that the answer scale is the smallest of the
  three and the question scale lies between the other two.
\<close>

theorem render_font_scales:
  "\<exists>d. build_pptx c = Inr d \<and>
       region_scale (slides d ! 0) 0 = [(Some (Pt 54), Some True)] \<and>
       region_scale (slides d ! 0) 1 = [(Some (Pt 34), Some False)] \<and>
       Pt 34 < Pt 54 \<and>
       (\<forall>i < length (qa_slides c).
          region_scale (slides d ! (i + 1)) 0 = [(Some (Pt 40), Some True)] \<and>
          region_scale (slides d ! (i + 1)) 1 = [(Some (Pt 30), Some False)]) \<and>
       Pt 40 < Pt 54 \<and> Pt 30 < Pt 40 \<and> Pt 30 < Pt 54"
  by (simp add: build_pptx_ok cover_rendered_def qa_rendered_def region_scale_rendered Pt_def)

text \<open>On the sample outline, in English Metric Units.\<close>

theorem render_font_scales_witness:
  "\<exists>d. build_pptx sample_outline = Inr d \<and>
       (1::nat) < length (qa_slides sample_outline) \<and>
       region_scale (slides d ! 0) 0 = [(Some 685800, Some True)] \<and>
       region_scale (slides d ! 0) 1 = [(Some 431800, Some False)] \<and>
       region_scale (slides d ! 2) 0 = [(Some 508000, Some True)] \<and>
       region_scale (slides d ! 2) 1 = [(Some 381000, Some False)]"
proof -
  from render_font_scales [of sample_outline] obtain d where
    d: "build_pptx sample_outline = Inr d"
    and c0: "region_scale (slides d ! 0) 0 = [(Some (Pt 54), Some True)]"
    and c1: "region_scale (slides d ! 0) 1 = [(Some (Pt 34), Some False)]"
    and q: "\<forall>i < length (qa_slides sample_outline).
          region_scale (slides d ! (i + 1)) 0 = [(Some (Pt 40), Some True)] \<and>
          region_scale (slides d ! (i + 1)) 1 = [(Some (Pt 30), Some False)]"
    by blast
  have len: "(1::nat) < length (qa_slides sample_outline)"
    by (simp add: sample_outline_def)
  with q have "region_scale (slides d ! (1 + 1)) 0 = [(Some (Pt 40), Some True)] \<and>
          region_scale (slides d ! (1 + 1)) 1 = [(Some (Pt 30), Some False)]"
    by blast
  then have "region_scale (slides d ! 2) 0 = [(Some 508000, Some True)] \<and>
          region_scale (slides d ! 2) 1 = [(Some 381000, Some False)]"
    unfolding one_add_one by (simp add: Pt_def)
  with d c0 c1 len show ?thesis by (auto simp: Pt_def)
qed

subsection \<open>C6: positions\<close>

text \<open>
  The claim as written has the positions of accepted question/answer records run 2, 3, ...
  The field \<^verbatim>\<open>slide_number\<close> is a plain \<^verbatim>\<open>int\<close>: a payload whose only question/answer
  record has position 7 is accepted, position and all.
\<close>

theorem odd_position_accepted:
  "validate_Carousel odd_position_payload =
     Inr \<lparr>cover = \<lparr>slide_number = 1, type = Lit_cover, title = ''Game Theory'',
                    subtitle = ''Play well''\<rparr>,
          qa_slides = [\<lparr>qa_slide_number = 7, qa_type = Lit_qa,
                        question = ''What is a Nash equilibrium?'',
                        answer = ''No player gains by deviating alone.''\<rparr>]\<rparr> \<and>
   (7::int) \<noteq> 2"
  by (simp add: odd_position_payload_def sample_cover_json_def sample_qa_json_def bind_def
      get_field_def member_def)

text \<open>
  C6, amended. The validator puts no condition on the positions of question/answer
  records: for a cover with position 1 and question/answer records with any integer
  positions, the payload that spells them out is accepted, and the outline carries every
  position as it was given.
\<close>

theorem positions_unconstrained:
  "validate_Carousel
     (dump_Carousel \<lparr>cover = \<lparr>slide_number = 1, type = Lit_cover, title = t, subtitle = s\<rparr>,
                     qa_slides = qs\<rparr>) =
   Inr \<lparr>cover = \<lparr>slide_number = 1, type = Lit_cover, title = t, subtitle = s\<rparr>,
        qa_slides = qs\<rparr>"
  by (rule validate_dump_Carousel)

subsection \<open>C7: the file name\<close>

text \<open>
  The claim as written has every character of the topic that is not alphanumeric replaced.
  The code replaces the space and nothing else: the slash of the topic \<^verbatim>\<open>a/b\<close> is in the
  file name.
\<close>

theorem slash_kept:
  "file_name ''a/b'' = ''LinkedIn_Carousel_a/b.pptx'' \<and> \<not> safe_char (CHR ''/'')"
  by (simp add: file_name_def replace_space_def safe_char_def)

text \<open>
  C7, amended. The file name is \<^verbatim>\<open>LinkedIn_Carousel_\<close>, a stem and \<^verbatim>\<open>.pptx\<close>; the stem is
  as long as the topic, has no space, and at every position has an underscore where the
  topic has a space and the topic's own character anywhere else.
\<close>

theorem file_name_spaces:
  "\<exists>stem. file_name topic = ''LinkedIn_Carousel_'' @ stem @ ''.pptx'' \<and>
          length stem = length topic \<and>
          CHR '' '' \<notin> set stem \<and>
          (\<forall>i < length topic.
             stem ! i = (if topic ! i = CHR '' '' then CHR ''_'' else topic ! i))"
proof -
  have "CHR '' '' \<notin> set (replace_space topic)"
    by (auto simp: replace_space_def)
  moreover have "\<forall>i < length topic.
      replace_space topic ! i = (if topic ! i = CHR '' '' then CHR ''_'' else topic ! i)"
    by (simp add: replace_space_def)
  moreover have "length (replace_space topic) = length topic"
    by (simp add: replace_space_def)
  ultimately show ?thesis
    unfolding file_name_def by blast
qed

text \<open>On a topic with a colon, a slash and spaces: the colon stays, the space goes.\<close>

theorem file_name_spaces_witness:
  "\<exists>stem. file_name ''AI: a/b test'' = ''LinkedIn_Carousel_'' @ stem @ ''.pptx'' \<and>
          (3::nat) < length ''AI: a/b test'' \<and> stem ! 3 = CHR ''_'' \<and>
          (2::nat) < length ''AI: a/b test'' \<and> stem ! 2 = CHR '':''"
proof -
  from file_name_spaces [of "''AI: a/b test''"] obtain stem where
    f: "file_name ''AI: a/b test'' = ''LinkedIn_Carousel_'' @ stem @ ''.pptx''"
    and n: "\<forall>i < length ''AI: a/b test''.
             stem ! i = (if ''AI: a/b test'' ! i = CHR '' '' then CHR ''_'' else ''AI: a/b test'' ! i)"
    by blast
  have l3: "(3::nat) < length ''AI: a/b test''" and l2: "(2::nat) < length ''AI: a/b test''"
    by simp_all
  from n l3 have "stem ! 3 = (if ''AI: a/b test'' ! 3 = CHR '' '' then CHR ''_'' else ''AI: a/b test'' ! 3)"
    by blast
  then have s3: "stem ! 3 = CHR ''_''"
    by (simp add: numeral_3_eq_3)
  from n l2 have "stem ! 2 = (if ''AI: a/b test'' ! 2 = CHR '' '' then CHR ''_'' else ''AI: a/b test'' ! 2)"
    by blast
  then have s2: "stem ! 2 = CHR '':''"
    by (simp add: numeral_2_eq_2)
  from f l3 s3 l2 s2 show ?thesis by blast
qed

subsection \<open>C8: empty inputs\<close>

text \<open>
  C8. A submission whose topic or credential is empty makes no outbound call and ends with
  an error message shown to the user, hence with no document.
\<close>

theorem empty_input_stops:
  assumes "topic = [] \<or> api_key = []"
  shows "calls (submit_handler svc True topic api_key) = [] \<and>
         (\<exists>msg. outcome (submit_handler svc True topic api_key) = StError msg)"
  using assms by (auto simp: submit_handler_def)

text \<open>An empty topic, and an empty credential.\<close>

theorem empty_input_stops_witness:
  "calls (submit_handler (sample_service zero_pairs_payload) True [] ''gsk'') = [] \<and>
   outcome (submit_handler (sample_service zero_pairs_payload) True [] ''gsk'')
     = StError ''Please enter a topic.'' \<and>
   calls (submit_handler (sample_service zero_pairs_payload) True ''Game Theory'' []) = [] \<and>
   outcome (submit_handler (sample_service zero_pairs_payload) True ''Game Theory'' [])
     = StError ''Please enter your Groq API key.''"
proof -
  have a: "[] = ([]::string) \<or> ''gsk'' = []" and b: "''Game Theory'' = [] \<or> [] = ([]::string)"
    by simp_all
  show ?thesis
    using empty_input_stops [OF a, of "sample_service zero_pairs_payload"]
      empty_input_stops [OF b, of "sample_service zero_pairs_payload"]
    by (simp add: submit_handler_def)
qed

subsection \<open>C9: positions are not read by the renderer\<close>

text \<open>
  C9. Two outlines that differ in positions only (they agree once every position is
  erased) render to the same document, and the slides of that document are the cover
  followed by the question/answer records in list order, each slide with the texts of its
  own record as stored.
\<close>

theorem positions_ignored:
  assumes "erase_positions c = erase_positions c'"
  shows "build_pptx c = build_pptx c' \<and>
         (\<exists>d. build_pptx c = Inr d \<and>
              map slide_texts (slides d) =
                (Some (as_stored (title (cover c))), Some (as_stored (subtitle (cover c))))
                # map (\<lambda>q. (Some (as_stored (question q)), Some (as_stored (answer q))))
                    (qa_slides c))"
proof -
  have "build_pptx c = build_pptx (erase_positions c)"
    by (simp only: build_pptx_erase)
  also have "\<dots> = build_pptx c'"
    by (simp only: assms build_pptx_erase)
  finally have same: "build_pptx c = build_pptx c'" .
  have "\<exists>d. build_pptx c = Inr d \<and>
       map slide_texts (slides d) =
         (Some (as_stored (title (cover c))), Some (as_stored (subtitle (cover c))))
         # map (\<lambda>q. (Some (as_stored (question q)), Some (as_stored (answer q))))
             (qa_slides c)"
    by (simp add: build_pptx_ok cover_rendered_def qa_rendered_def slide_texts_rendered comp_def)
  with same show ?thesis by blast
qed

text \<open>The sample outline and the same outline with positions 9, 3, 2.\<close>

theorem positions_ignored_witness:
  "erase_positions sample_outline = erase_positions renumbered_outline \<and>
   sample_outline \<noteq> renumbered_outline \<and>
   build_pptx sample_outline = build_pptx renumbered_outline"
proof -
  have e: "erase_positions sample_outline = erase_positions renumbered_outline"
    by (simp add: erase_positions_def sample_outline_def renumbered_outline_def)
  have "sample_outline \<noteq> renumbered_outline"
    by (simp add: sample_outline_def renumbered_outline_def)
  with e positions_ignored [OF e] show ?thesis by blast
qed

subsection \<open>C10: the renderer is total\<close>


end
